theory Spec2Isabelle
  imports Complex_Main
begin

section \<open>Conventions of the embedding\<close>

text \<open>
  The development embeds the estimation core of \<^verbatim>\<open>econtools/metrics/core.py\<close> and
  the sampling helpers of \<^verbatim>\<open>econtools/metrics/regutil.py\<close>.

  \<^item> Python exceptions are values of the type \<open>error\<close>; a function that may raise
    returns \<open>error + 'a\<close> with \<open>Inl\<close> for the exception.
  \<^item> Python's \<^verbatim>\<open>None\<close> is \<open>None\<close> of an option type; a keyword argument that
    holds a column name is a \<open>string option\<close>.
  \<^item> 64-bit floating point numbers are idealised as \<open>real\<close>; Python integers are
    \<open>int\<close>.
\<close>

datatype error =
    ValueError string
  | ZeroDivisionError
  | KeyError string
  | AttributeError string
  | UnboundLocalError string
  | TypeError
  | IndexError
  | LinAlgError
  | AssertionError

definition bindE :: "error + 'a \<Rightarrow> ('a \<Rightarrow> error + 'b) \<Rightarrow> error + 'b" where
  "bindE m f = (case m of Inl e \<Rightarrow> Inl e | Inr v \<Rightarrow> f v)"

section \<open>Configuration of the variance estimator\<close>

text \<open>
  The spatial-HAC configuration is a Python dict; its values are column names, a kernel
  name or a bandwidth. A dict is truthy when it has an entry, a string when it has a
  character, and \<^verbatim>\<open>None\<close> is falsy.
\<close>

datatype pyval = PyStr string | PyNum real

type_synonym pydict = "(string \<times> pyval) list"

definition truthy_str :: "string option \<Rightarrow> bool" where
  "truthy_str s = (case s of None \<Rightarrow> False | Some t \<Rightarrow> t \<noteq> [])"

definition truthy_dict :: "pydict option \<Rightarrow> bool" where
  "truthy_dict d = (case d of None \<Rightarrow> False | Some kv \<Rightarrow> kv \<noteq> [])"

definition valid_vce :: "string option list" where
  "valid_vce = [None, Some ''robust'', Some ''hc1'', Some ''hc2'', Some ''hc3'',
                Some ''cluster'', Some ''shac'']"

definition py_format_opt :: "string option \<Rightarrow> string" where
  "py_format_opt v = (case v of None \<Rightarrow> ''None'' | Some s \<Rightarrow> s)"

definition vce_not_supported :: "string option \<Rightarrow> error" where
  "vce_not_supported v =
     ValueError (''VCE type '' @ [CHR 0x27] @ py_format_opt v @ [CHR 0x27] @ '' is not supported'')"

definition vce_conflict :: error where
  "vce_conflict = ValueError ''VCE type conflict!''"

definition set_vce_type :: "string option \<Rightarrow> string option \<Rightarrow> pydict option \<Rightarrow> error + string option" where
  "set_vce_type vce_type cluster shac =
     (if vce_type \<notin> set valid_vce then Inl (vce_not_supported vce_type)
      else
        let cluster_err = (truthy_str cluster \<and> (vce_type \<noteq> Some ''cluster'' \<and> vce_type \<noteq> None));
            shac_err = (truthy_dict shac \<and> (vce_type \<noteq> Some ''shac'' \<and> vce_type \<noteq> None))
        in if (truthy_str cluster \<and> truthy_dict shac) \<or> cluster_err \<or> shac_err
           then Inl vce_conflict
           else if truthy_str cluster then Inr (Some ''cluster'')
           else if truthy_dict shac then Inr (Some ''shac'')
           else Inr vce_type)"


section \<open>Arrays, columns and tables\<close>

text \<open>
  A two-dimensional array carries its shape, so that an array with no rows still has a
  number of columns, as in numpy. \<open>mk_mat\<close> tabulates a function of the row and the
  column index; \<open>ent\<close> reads an entry.
\<close>

datatype mat = Mat (nr: nat) (nc: nat) (rows: "real list list")

definition wf_mat :: "mat \<Rightarrow> bool" where
  "wf_mat M = (length (rows M) = nr M \<and> list_all (\<lambda>r. length r = nc M) (rows M))"

definition mk_mat :: "nat \<Rightarrow> nat \<Rightarrow> (nat \<Rightarrow> nat \<Rightarrow> real) \<Rightarrow> mat" where
  "mk_mat m n f = Mat m n (map (\<lambda>i. map (f i) [0..<n]) [0..<m])"

definition ent :: "mat \<Rightarrow> nat \<Rightarrow> nat \<Rightarrow> real" where
  "ent M i j = rows M ! i ! j"

text \<open>\<^verbatim>\<open>M * c\<close> and \<^verbatim>\<open>M *= c\<close> for a scalar \<open>c\<close>.\<close>

definition scale :: "mat \<Rightarrow> real \<Rightarrow> mat" where
  "scale M c = Mat (nr M) (nc M) (map (map (\<lambda>v. v * c)) (rows M))"


text \<open>
  numpy operations on arrays. Every operation builds its result with \<open>mk_mat\<close>, entry by
  entry. A one-dimensional array is a list. \<open>np_dot\<close> raises \<^verbatim>\<open>ValueError\<close> when the
  shapes are not aligned; \<open>mdot\<close> is used where they are aligned by construction.
\<close>

definition col :: "mat \<Rightarrow> nat \<Rightarrow> real list" where
  "col M j = map (\<lambda>i. ent M i j) [0..<nr M]"

definition row :: "mat \<Rightarrow> nat \<Rightarrow> real list" where
  "row M i = map (\<lambda>j. ent M i j) [0..<nc M]"

definition tr :: "mat \<Rightarrow> mat" where
  "tr M = mk_mat (nc M) (nr M) (\<lambda>i j. ent M j i)"

definition mdot :: "mat \<Rightarrow> mat \<Rightarrow> mat" where
  "mdot A B = mk_mat (nr A) (nc B) (\<lambda>i j. \<Sum>k\<leftarrow>[0..<nc A]. ent A i k * ent B k j)"

definition mvdot :: "mat \<Rightarrow> real list \<Rightarrow> real list" where
  "mvdot A v = map (\<lambda>i. \<Sum>k\<leftarrow>[0..<nc A]. ent A i k * v ! k) [0..<nr A]"

definition shapes_not_aligned :: error where
  "shapes_not_aligned = ValueError ''shapes not aligned''"

definition np_dot :: "mat \<Rightarrow> mat \<Rightarrow> error + mat" where
  "np_dot A B = (if nc A = nr B then Inr (mdot A B) else Inl shapes_not_aligned)"

definition np_dot_mv :: "mat \<Rightarrow> real list \<Rightarrow> error + real list" where
  "np_dot_mv A v = (if nc A = length v then Inr (mvdot A v) else Inl shapes_not_aligned)"

definition madd :: "mat \<Rightarrow> mat \<Rightarrow> mat" where
  "madd A B = mk_mat (nr A) (nc A) (\<lambda>i j. ent A i j + ent B i j)"

definition msub :: "mat \<Rightarrow> mat \<Rightarrow> mat" where
  "msub A B = mk_mat (nr A) (nc A) (\<lambda>i j. ent A i j - ent B i j)"

definition vadd :: "real list \<Rightarrow> real list \<Rightarrow> real list" where
  "vadd u v = map (\<lambda>i. u ! i + v ! i) [0..<length u]"

definition vsub :: "real list \<Rightarrow> real list \<Rightarrow> real list" where
  "vsub u v = map (\<lambda>i. u ! i - v ! i) [0..<length u]"

definition vscale :: "real \<Rightarrow> real list \<Rightarrow> real list" where
  "vscale c v = map (\<lambda>a. c * a) v"

definition eye :: "nat \<Rightarrow> mat" where
  "eye n = mk_mat n n (\<lambda>i j. if i = j then 1 else 0)"

text \<open>
  \<^verbatim>\<open>pd.concat((a, b), axis=1)\<close> of two tables over the same rows, a column as a table
  of one column, and the assignment of a column.
\<close>

definition hcat :: "mat \<Rightarrow> mat \<Rightarrow> mat" where
  "hcat A B = mk_mat (nr A) (nc A + nc B)
                (\<lambda>i j. if j < nc A then ent A i j else ent B i (j - nc A))"

definition col_mat :: "real list \<Rightarrow> mat" where
  "col_mat v = mk_mat (length v) 1 (\<lambda>i j. v ! i)"

definition set_col :: "mat \<Rightarrow> nat \<Rightarrow> real list \<Rightarrow> mat" where
  "set_col M j v = mk_mat (nr M) (nc M) (\<lambda>i k. if k = j then v ! i else ent M i k)"


text \<open>
  A pandas Series taken from the dataset keeps the name of its column; a DataFrame of
  regressors keeps its column labels. After the sample is extracted no value is missing
  and the row index is \<open>0, 1, ...\<close>, so rows are addressed by position.
\<close>

datatype series = Series (sname: string) (svals: "real list")

datatype frame = Frame (columns: "string list") (fvalues: mat)

definition shape :: "frame \<Rightarrow> int \<times> int" where
  "shape x = (int (nr (fvalues x)), int (nc (fvalues x)))"

definition concat_frames :: "frame \<Rightarrow> frame \<Rightarrow> frame" where
  "concat_frames a b = Frame (columns a @ columns b) (hcat (fvalues a) (fvalues b))"

text \<open>\<^verbatim>\<open>DataFrame.empty\<close>: an axis has length 0.\<close>

definition frame_empty :: "frame \<Rightarrow> bool" where
  "frame_empty x = (nr (fvalues x) = 0 \<or> nc (fvalues x) = 0)"

text \<open>The setter of \<^verbatim>\<open>Results.sst\<close>: the total sum of squares of \<open>y\<close> about its mean.\<close>

definition np_mean :: "real list \<Rightarrow> real" where
  "np_mean v = sum_list v / real (length v)"

definition vdot :: "real list \<Rightarrow> real list \<Rightarrow> real" where
  "vdot u v = sum_list (map2 (*) u v)"

definition sst_of :: "real list \<Rightarrow> real" where
  "sst_of y = (let y_demeaned = map (\<lambda>v. v - np_mean y) y in vdot y_demeaned y_demeaned)"

section \<open>The worker's attributes\<close>

text \<open>
  The attributes of the worker object \<^verbatim>\<open>self\<close> are grouped by the step that sets
  them: \<open>config\<close> holds what \<^verbatim>\<open>__init__\<close> stores, \<open>sample_vars\<close> what
  \<^verbatim>\<open>set_sample\<close> stores, and \<open>results\<close> is the \<^verbatim>\<open>Results\<close> object. A field
  \<open>self_a\<close> is the attribute \<^verbatim>\<open>self.a\<close>; an attribute of \<^verbatim>\<open>Results\<close> that is set
  only on some paths is an option, \<open>None\<close> meaning that the attribute does not exist.
\<close>

datatype klass = Regression | IVReg

text \<open>A floating point attribute that may hold \<^verbatim>\<open>nan\<close>.\<close>

datatype npfloat = Finite real | NaN

record config =
  self_class :: klass
  self_y_name :: string
  self_x_name :: "string list"
  self_a_name :: "string option"
  self_nosingles :: bool
  self_vce_type :: "string option"
  self_cluster :: "string option"
  self_shac_x_name :: "string option"
  self_shac_y_name :: "string option"
  self_shac_band :: "real option"
  self_shac_kern :: "string option"
  self_addcons :: "bool option"
  self_nocons :: bool
  self_awt_name :: "string option"
  self_z_name :: "string list"
  self_w_name :: "string list"
  self_iv_method :: string
  self_kappa_debug :: "real option"

record sample_vars =
  self_sample :: "bool list"
  self_y :: series
  self_x :: frame
  self_A :: "series option"
  self_cluster_id :: "series option"
  self_shac_x :: "series option"
  self_shac_y :: "series option"
  self_AWT :: "series option"
  self_z :: "frame option"
  self_w :: "frame option"
  self_y_raw :: "series option"

record results =
  res_beta :: "(string \<times> real) list"
  res_xpx_inv :: mat
  res_sst :: "real option"
  res_nocons :: "bool option"
  res_r2 :: "npfloat option"
  res_r2_a :: "npfloat option"
  res_iv_method :: "string option"
  res_kappa :: "real option"
  res_vce :: "frame option"
  res_yhat :: "real list option"
  res_resid :: "real list option"
  res_sample :: "bool list option"
  res_g :: "int option"
  res_N :: "int option"
  res_K :: "int option"
  res_df_t :: "int option"
  res_df_r :: "int option"
  res_vce_correct :: "real option"

text \<open>What \<^verbatim>\<open>estimate\<close> stores: the results, and for IV the two regressor tables.\<close>

record fit_vars =
  self_results :: results
  self_Xhat :: "frame option"
  self_Xtrue :: "frame option"


section \<open>The linear solver and the estimators\<close>

text \<open>
  The routines of numpy and scipy that the estimators call are parameters of the
  embedding: the matrix inverse, the eigenvalues of a symmetric matrix, the matrix square
  root, the rank, and the distribution functions. Each may raise.
\<close>

record lib =
  la_inv :: "mat \<Rightarrow> error + mat"
  la_eigvalsh :: "mat \<Rightarrow> error + real list"
  sl_sqrtm :: "mat \<Rightarrow> error + mat"
  la_matrix_rank :: "mat \<Rightarrow> error + nat"
  stats_t_cdf :: "real \<Rightarrow> int \<Rightarrow> real"
  stats_t_ppf :: "real \<Rightarrow> int \<Rightarrow> real"
  stats_f_cdf :: "real \<Rightarrow> nat \<Rightarrow> int \<Rightarrow> real"

text \<open>
  \<^verbatim>\<open>fitguts\<close>. The two assertions on the dimensions hold by typing: \<open>y\<close> is a list
  and \<open>x\<close> is a table. The Series constructor raises when the number of values is not
  the number of labels.
\<close>

definition series_length_mismatch :: error where
  "series_length_mismatch = ValueError ''Length of values does not match length of index''"

definition labelled :: "string list \<Rightarrow> real list \<Rightarrow> error + (string \<times> real) list" where
  "labelled index v = (if length v = length index then Inr (zip index v) else Inl series_length_mismatch)"

definition fitguts :: "lib \<Rightarrow> real list \<Rightarrow> frame \<Rightarrow> error + ((string \<times> real) list \<times> mat)" where
  "fitguts L y x =
     (let X = fvalues x
      in bindE (la_inv L (mdot (tr X) X)) (\<lambda>xpx_inv.
         bindE (np_dot_mv (tr X) y) (\<lambda>xpy.
         bindE (np_dot_mv xpx_inv xpy) (\<lambda>b.
         bindE (labelled (columns x) b) (\<lambda>beta.
         Inr (beta, xpx_inv))))))"

text \<open>\<^verbatim>\<open>Results(beta=beta, xpx_inv=xpx_inv)\<close>: no other attribute exists yet.\<close>

definition new_results :: "(string \<times> real) list \<Rightarrow> mat \<Rightarrow> results" where
  "new_results b xpx_inv =
     \<lparr>res_beta = b, res_xpx_inv = xpx_inv, res_sst = None, res_nocons = None,
      res_r2 = None, res_r2_a = None, res_iv_method = None, res_kappa = None,
      res_vce = None, res_yhat = None, res_resid = None, res_sample = None,
      res_g = None, res_N = None, res_K = None, res_df_t = None, res_df_r = None,
      res_vce_correct = None\<rparr>"

text \<open>
  \<^verbatim>\<open>IVReg._first_stage\<close>: each endogenous column, in turn, is replaced in \<open>Xhat\<close> by its
  projection on the instruments. Columns are addressed by position; the labels of
  \<open>x\<close>, \<open>z\<close> and \<open>w\<close> are taken to be distinct.
\<close>

fun first_stage_loop :: "lib \<Rightarrow> frame \<Rightarrow> frame \<Rightarrow> nat list \<Rightarrow> mat \<Rightarrow> error + mat" where
  "first_stage_loop L x Z [] Xhat = Inr Xhat"
| "first_stage_loop L x Z (an_x # rest) Xhat =
     (case fitguts L (col (fvalues x) an_x) Z of
        Inl e \<Rightarrow> Inl e
      | Inr (pi_hat, u) \<Rightarrow>
          (case np_dot_mv (fvalues Z) (map snd pi_hat) of
             Inl e \<Rightarrow> Inl e
           | Inr fitted \<Rightarrow> first_stage_loop L x Z rest (set_col Xhat an_x fitted)))"

definition first_stage :: "lib \<Rightarrow> frame \<Rightarrow> frame \<Rightarrow> frame \<Rightarrow> error + (frame \<times> frame)" where
  "first_stage L x w z =
     (let X = concat_frames x w;
          Z = concat_frames z w
      in bindE (first_stage_loop L x Z [0..<nc (fvalues x)] (fvalues X)) (\<lambda>Xhat.
         Inr (Frame (columns X) Xhat, X)))"

text \<open>
  \<^verbatim>\<open>IVReg._liml_kappa\<close>: the smallest eigenvalue of \<open>bread * meat * bread\<close>.
  \<^verbatim>\<open>np.min\<close> of an empty array raises.
\<close>

definition np_min :: "real list \<Rightarrow> error + real" where
  "np_min v = (case v of [] \<Rightarrow> Inl (ValueError ''zero-size array'') | a # as \<Rightarrow> Inr (fold min as a))"

definition liml_kappa :: "lib \<Rightarrow> real list \<Rightarrow> frame \<Rightarrow> frame \<Rightarrow> frame \<Rightarrow> error + (real \<times> mat)" where
  "liml_kappa L y x w Z =
     (let Y = hcat (col_mat y) (fvalues x);
          YY = mdot (tr Y) Y
      in bindE (np_dot (tr Y) (fvalues Z)) (\<lambda>YZ.
         bindE (la_inv L (mdot (tr (fvalues Z)) (fvalues Z))) (\<lambda>ZZ_inv.
         bindE (np_dot YZ ZZ_inv) (\<lambda>YZ_ZZ_inv.
         bindE (sl_sqrtm L (msub YY (mdot YZ_ZZ_inv (tr YZ)))) (\<lambda>root.
         bindE (la_inv L root) (\<lambda>bread.
         bindE (if \<not> frame_empty w then
                  bindE (np_dot (tr Y) (fvalues w)) (\<lambda>Yw.
                  bindE (la_inv L (mdot (tr (fvalues w)) (fvalues w))) (\<lambda>ww_inv.
                  bindE (np_dot Yw ww_inv) (\<lambda>Yw_ww_inv.
                  Inr (msub YY (mdot Yw_ww_inv (tr Yw))))))
                else Inr YY) (\<lambda>meat.
         bindE (np_dot bread meat) (\<lambda>bm.
         bindE (np_dot bm bread) (\<lambda>bmb.
         bindE (la_eigvalsh L bmb) (\<lambda>eigs.
         bindE (np_min eigs) (\<lambda>kappa.
         Inr (kappa, ZZ_inv))))))))))))"

text \<open>
  \<^verbatim>\<open>IVReg._liml\<close>. The value of \<^verbatim>\<open>_liml_kappa\<close> is replaced by the debugging
  override when there is one, else by 1 when \<open>x\<close> and \<open>z\<close> have the same number of
  columns. The result is \<open>(beta, se_xpx_inv, Z, X, kappa)\<close>.
\<close>

definition liml ::
  "lib \<Rightarrow> real list \<Rightarrow> frame \<Rightarrow> frame \<Rightarrow> frame \<Rightarrow> real option \<Rightarrow> string option
     \<Rightarrow> error + ((string \<times> real) list \<times> mat \<times> frame \<times> frame \<times> real)" where
  "liml L y x z w kappa_debug vce_type =
     (let Z = concat_frames z w
      in bindE (liml_kappa L y x w Z) (\<lambda>(kappa0, ZZ_inv).
         let X = concat_frames x w;
             XX = mdot (tr (fvalues X)) (fvalues X)
         in bindE (np_dot (tr (fvalues X)) (fvalues Z)) (\<lambda>XZ.
            bindE (np_dot_mv (tr (fvalues X)) y) (\<lambda>Xy.
            bindE (np_dot_mv (tr (fvalues Z)) y) (\<lambda>Zy.
            let kappa = (case kappa_debug of
                           Some k \<Rightarrow> k
                         | None \<Rightarrow> if nc (fvalues x) = nc (fvalues z) then 1 else kappa0)
            in bindE (np_dot XZ ZZ_inv) (\<lambda>XZ_ZZ_inv.
               bindE (la_inv L (madd (scale XX (1 - kappa)) (scale (mdot XZ_ZZ_inv (tr XZ)) kappa))) (\<lambda>xpx_inv.
               bindE (np_dot_mv XZ_ZZ_inv Zy) (\<lambda>proj.
               let xpy = vadd (vscale (1 - kappa) Xy) (vscale kappa proj)
               in bindE (np_dot_mv xpx_inv xpy) (\<lambda>b.
                  bindE (labelled (columns X) b) (\<lambda>beta.
                  bindE (if vce_type = None then Inr xpx_inv
                         else bindE (np_dot xpx_inv XZ) (\<lambda>t. np_dot t ZZ_inv)) (\<lambda>se_xpx_inv.
                  Inr (beta, se_xpx_inv, Z, X, kappa))))))))))))"

text \<open>
  \<^verbatim>\<open>Regression.estimate\<close> and \<^verbatim>\<open>IVReg.estimate\<close>. With a method that is neither
  \<^verbatim>\<open>'2sls'\<close> nor \<^verbatim>\<open>'liml'\<close> the error message is formatted from \<^verbatim>\<open>self.method\<close>, an
  attribute that the worker does not have.
\<close>

definition estimate_ols :: "lib \<Rightarrow> sample_vars \<Rightarrow> error + fit_vars" where
  "estimate_ols L sv =
     bindE (fitguts L (svals (self_y sv)) (self_x sv)) (\<lambda>(beta, xpx_inv).
       Inr \<lparr>self_results = (new_results beta xpx_inv)\<lparr>res_sst := Some (sst_of (svals (self_y sv)))\<rparr>,
            self_Xhat = None, self_Xtrue = None\<rparr>)"

definition iv_results :: "config \<Rightarrow> sample_vars \<Rightarrow> (string \<times> real) list \<Rightarrow> mat \<Rightarrow> results" where
  "iv_results cfg sv beta xpx_inv =
     (new_results beta xpx_inv)
       \<lparr>res_sst := Some (sst_of (svals (self_y sv))), res_r2 := Some NaN, res_r2_a := Some NaN,
        res_iv_method := Some (self_iv_method cfg)\<rparr>"

definition estimate_iv :: "lib \<Rightarrow> config \<Rightarrow> sample_vars \<Rightarrow> error + fit_vars" where
  "estimate_iv L cfg sv =
     (case (self_z sv, self_w sv) of
        (Some z, Some w) \<Rightarrow>
          (let y = svals (self_y sv); x = self_x sv
           in if self_iv_method cfg = ''2sls'' then
                bindE (first_stage L x w z) (\<lambda>(Xhat, Xtrue).
                bindE (fitguts L y Xhat) (\<lambda>(beta, xpx_inv).
                Inr \<lparr>self_results = iv_results cfg sv beta xpx_inv,
                     self_Xhat = Some Xhat, self_Xtrue = Some Xtrue\<rparr>))
              else if self_iv_method cfg = ''liml'' then
                bindE (liml L y x z w (self_kappa_debug cfg) (self_vce_type cfg))
                  (\<lambda>(beta, xpx_inv, Xhat, Xtrue, kappa).
                Inr \<lparr>self_results = (iv_results cfg sv beta xpx_inv)\<lparr>res_kappa := Some kappa\<rparr>,
                     self_Xhat = Some Xhat, self_Xtrue = Some Xtrue\<rparr>)
              else Inl (AttributeError ''method''))
      | _ \<Rightarrow> Inl (AttributeError ''z''))"

definition estimate :: "lib \<Rightarrow> config \<Rightarrow> sample_vars \<Rightarrow> error + fit_vars" where
  "estimate L cfg sv =
     (case self_class cfg of
        Regression \<Rightarrow> estimate_ols L sv
      | IVReg \<Rightarrow> estimate_iv L cfg sv)"

section \<open>Degrees of freedom\<close>

text \<open>
  \<^verbatim>\<open>n\<close>, \<^verbatim>\<open>k\<close> and \<^verbatim>\<open>g\<close> are Python integers and the module has true division:
  a zero divisor raises \<^verbatim>\<open>ZeroDivisionError\<close>.
\<close>

definition py_truediv :: "int \<Rightarrow> int \<Rightarrow> error + real" where
  "py_truediv a b = (if b = 0 then Inl ZeroDivisionError else Inr (real_of_int a / real_of_int b))"

definition df_std :: "int \<Rightarrow> int \<Rightarrow> error + (int \<times> real)" where
  "df_std n k =
     (let df = n - k
      in bindE (py_truediv n df) (\<lambda>vce_correct. Inr (df, vce_correct)))"

definition df_hc23 :: "int \<Rightarrow> int \<Rightarrow> error + (int \<times> real)" where
  "df_hc23 n k = (let df = n - k; vce_correct = 1 in Inr (df, vce_correct))"

definition df_cluster :: "int \<Rightarrow> int \<Rightarrow> series option \<Rightarrow> error + (int \<times> real \<times> int)" where
  "df_cluster n k cluster_id =
     (case cluster_id of
        None \<Rightarrow> Inl TypeError
      | Some c \<Rightarrow>
          let g = int (length (remdups (svals c)));
              df = g - 1
          in bindE (py_truediv (n - 1) (n - k)) (\<lambda>a.
             bindE (py_truediv g (g - 1)) (\<lambda>b.
             Inr (df, a * b, g))))"

definition df_shac :: "int \<Rightarrow> int \<Rightarrow> error + (int \<times> real)" where
  "df_shac n k = (let df = n - k; vce_correct = 1 in Inr (df, vce_correct))"

text \<open>
  \<^verbatim>\<open>_fe_nested_in_cluster\<close>. The two columns are joined row by row; \<open>pair_counts\<close>
  has one entry for each distinct (cluster, group) pair, and \<open>num_of_clusters\<close> counts,
  for each group, the pairs that hold it. The maximum of an empty Series is NaN, which
  is not equal to 1.
\<close>

definition fe_nested_in_cluster :: "series option \<Rightarrow> series option \<Rightarrow> bool" where
  "fe_nested_in_cluster cluster_id A =
     (case cluster_id of
        None \<Rightarrow> False
      | Some c \<Rightarrow>
          (case A of
             None \<Rightarrow> False
           | Some a \<Rightarrow>
               if sname c = sname a then True
               else
                 let joint = zip (svals c) (svals a);
                     pair_counts = remdups joint;
                     num_of_clusters =
                       map (\<lambda>grp. length (filter (\<lambda>p. snd p = grp) pair_counts))
                           (remdups (map snd pair_counts))
                 in num_of_clusters \<noteq> [] \<and> Max (set num_of_clusters) = 1))"

text \<open>
  Two readings of "the fixed-effect groups are nested within the clusters", over the rows
  of the sample. \<open>every_group_one_cluster\<close>: no group has rows in two clusters.
  \<open>every_cluster_one_group\<close> follows the words of the specification: no cluster has
  rows of two groups.
\<close>

definition every_group_one_cluster :: "series \<Rightarrow> series \<Rightarrow> bool" where
  "every_group_one_cluster c a =
     (\<forall>p \<in> set (zip (svals c) (svals a)). \<forall>q \<in> set (zip (svals c) (svals a)).
        snd p = snd q \<longrightarrow> fst p = fst q)"

definition every_cluster_one_group :: "series \<Rightarrow> series \<Rightarrow> bool" where
  "every_cluster_one_group c a =
     (\<forall>p \<in> set (zip (svals c) (svals a)). \<forall>q \<in> set (zip (svals c) (svals a)).
        fst p = fst q \<longrightarrow> snd p = snd q)"

text \<open>
  \<^verbatim>\<open>RegBase._set_NK\<close>, and the override of \<^verbatim>\<open>IVReg\<close>, which adds the number of
  included exogenous regressors. \<^verbatim>\<open>y_raw\<close> exists only after demeaning.
\<close>

definition set_NK_base :: "config \<Rightarrow> sample_vars \<Rightarrow> results \<Rightarrow> error + (int \<times> int \<times> results)" where
  "set_NK_base cfg sv res =
     (let (N, K) = shape (self_x sv)
      in case self_A sv of
           Some a \<Rightarrow>
             let K' = (if \<not> fe_nested_in_cluster (self_cluster_id sv) (self_A sv)
                       then K + int (length (remdups (svals a))) else K)
             in (case self_y_raw sv of
                   None \<Rightarrow> Inl (AttributeError ''y_raw'')
                 | Some y_raw \<Rightarrow>
                     Inr (N, K', res\<lparr>res_sst := Some (sst_of (svals y_raw)), res_nocons := Some True\<rparr>))
         | None \<Rightarrow> Inr (N, K, res\<lparr>res_nocons := Some (self_nocons cfg)\<rparr>))"

definition set_NK :: "config \<Rightarrow> sample_vars \<Rightarrow> results \<Rightarrow> error + (int \<times> int \<times> results)" where
  "set_NK cfg sv res =
     (case self_class cfg of
        Regression \<Rightarrow> set_NK_base cfg sv res
      | IVReg \<Rightarrow>
          bindE (set_NK_base cfg sv res) (\<lambda>(N, K, res').
            case self_w sv of
              Some w \<Rightarrow> Inr (N, K + snd (shape w), res')
            | None \<Rightarrow> Inr (N, K, res')))"

text \<open>
  \<^verbatim>\<open>RegBase.set_dof\<close>. With a \<^verbatim>\<open>vce_type\<close> that no branch takes, \<^verbatim>\<open>df\<close> is read
  before it is bound. The VCE is scaled in place; it must have been stored before.
\<close>

definition add_dof_stats :: "int \<Rightarrow> int \<Rightarrow> int \<Rightarrow> real \<Rightarrow> results \<Rightarrow> error + results" where
  "add_dof_stats N K df vce_correct res =
     (let res1 = res\<lparr>res_N := Some N, res_K := Some K, res_df_t := Some df, res_df_r := Some df,
                     res_vce_correct := Some vce_correct\<rparr>
      in case res_vce res1 of
           None \<Rightarrow> Inl (AttributeError ''vce'')
         | Some v \<Rightarrow>
             Inr (res1\<lparr>res_vce := Some (Frame (columns v) (scale (fvalues v) vce_correct))\<rparr>))"

definition set_dof :: "config \<Rightarrow> sample_vars \<Rightarrow> results \<Rightarrow> error + results" where
  "set_dof cfg sv res =
     bindE (set_NK cfg sv res) (\<lambda>(N, K, res0).
       let vce_type = self_vce_type cfg
       in if vce_type \<in> {None, Some ''robust'', Some ''hc1''} then
            bindE (df_std N K) (\<lambda>(df, vce_correct). add_dof_stats N K df vce_correct res0)
          else if vce_type \<in> {Some ''hc2'', Some ''hc3''} then
            bindE (df_hc23 N K) (\<lambda>(df, vce_correct). add_dof_stats N K df vce_correct res0)
          else if vce_type = Some ''cluster'' then
            bindE (df_cluster N K (self_cluster_id sv)) (\<lambda>(df, vce_correct, g).
              add_dof_stats N K df vce_correct (res0\<lparr>res_g := Some g\<rparr>))
          else if vce_type = Some ''shac'' then
            bindE (df_shac N K) (\<lambda>(df, vce_correct). add_dof_stats N K df vce_correct res0)
          else Inl (UnboundLocalError ''df''))"

section \<open>Example data\<close>

text \<open>
  The regression of \<open>y = [1, 2, 3, 4]\<close> on \<open>x = [1, 1, 2, 2]\<close> and a constant: the
  slope is 2 and the intercept is \<open>-1/2\<close>. \<open>ex_results\<close> is the \<^verbatim>\<open>Results\<close>
  object as it stands after \<^verbatim>\<open>get_vce\<close> with the homoskedastic estimator.
\<close>

definition ex_config :: config where
  "ex_config =
     \<lparr>self_class = Regression, self_y_name = ''y'', self_x_name = [''x''], self_a_name = None,
      self_nosingles = True, self_vce_type = None, self_cluster = None,
      self_shac_x_name = None, self_shac_y_name = None, self_shac_band = None,
      self_shac_kern = None, self_addcons = Some True, self_nocons = False,
      self_awt_name = None, self_z_name = [], self_w_name = [], self_iv_method = ''2sls'',
      self_kappa_debug = None\<rparr>"

definition ex_sample :: sample_vars where
  "ex_sample =
     \<lparr>self_sample = [True, True, True, True],
      self_y = Series ''y'' [1, 2, 3, 4],
      self_x = Frame [''x'', ''_cons''] (Mat 4 2 [[1, 1], [1, 1], [2, 1], [2, 1]]),
      self_A = None, self_cluster_id = Some (Series ''c'' [1, 1, 2, 3]),
      self_shac_x = None, self_shac_y = None, self_AWT = None,
      self_z = None, self_w = None, self_y_raw = None\<rparr>"

definition ex_results :: results where
  "ex_results =
     \<lparr>res_beta = [(''x'', 2), (''_cons'', - 1 / 2)],
      res_xpx_inv = Mat 2 2 [[1, - 3 / 2], [- 3 / 2, 5 / 2]],
      res_sst = Some 5, res_nocons = None, res_r2 = None, res_r2_a = None,
      res_iv_method = None, res_kappa = None,
      res_vce = Some (Frame [''x'', ''_cons''] (Mat 2 2 [[1 / 4, - 3 / 8], [- 3 / 8, 5 / 8]])),
      res_yhat = Some [3 / 2, 3 / 2, 7 / 2, 7 / 2],
      res_resid = Some [- 1 / 2, 1 / 2, - 1 / 2, 1 / 2],
      res_sample = Some [True, True, True, True],
      res_g = None, res_N = None, res_K = None, res_df_t = None, res_df_r = None,
      res_vce_correct = None\<rparr>"

text \<open>
  A sample of two rows with a cluster column \<open>c\<close> and a group column \<open>a\<close>, after
  demeaning.
\<close>

definition nest_sample :: "real list \<Rightarrow> real list \<Rightarrow> sample_vars" where
  "nest_sample cl grp =
     \<lparr>self_sample = [True, True],
      self_y = Series ''y'' [-1, 1],
      self_x = Frame [''x''] (Mat 2 1 [[1], [2]]),
      self_A = Some (Series ''a'' grp), self_cluster_id = Some (Series ''c'' cl),
      self_shac_x = None, self_shac_y = None, self_AWT = None,
      self_z = None, self_w = None, self_y_raw = Some (Series ''y'' [1, 3])\<rparr>"

section \<open>Properties of the configuration check\<close>

lemma valid_vce_iff:
  "v \<in> set valid_vce \<longleftrightarrow>
     v = None \<or> v = Some ''robust'' \<or> v = Some ''hc1'' \<or> v = Some ''hc2'' \<or> v = Some ''hc3''
     \<or> v = Some ''cluster'' \<or> v = Some ''shac''"
  by (auto simp: valid_vce_def)

text \<open>
  Claim C4. The VCE configuration is validated as follows, where a cluster key or a
  spatial-HAC configuration counts as supplied when it is truthy in Python:
  a cluster key together with a spatial-HAC configuration is an error; a cluster key with
  an explicit \<open>vce_type\<close> other than \<open>cluster\<close> is an error; a spatial-HAC configuration
  with an explicit \<open>vce_type\<close> other than \<open>shac\<close> is an error; a \<open>vce_type\<close> outside
  the seven valid values is an error; otherwise a cluster key alone gives \<open>cluster\<close>, a
  spatial-HAC configuration alone gives \<open>shac\<close>, and with neither the given \<open>vce_type\<close>
  is returned.
\<close>

theorem set_vce_type_validation:
  "(truthy_str cluster \<and> truthy_dict shac \<longrightarrow> isl (set_vce_type v cluster shac))
   \<and> (truthy_str cluster \<and> v \<noteq> None \<and> v \<noteq> Some ''cluster'' \<longrightarrow> isl (set_vce_type v cluster shac))
   \<and> (truthy_dict shac \<and> v \<noteq> None \<and> v \<noteq> Some ''shac'' \<longrightarrow> isl (set_vce_type v cluster shac))
   \<and> (v \<notin> set valid_vce \<longrightarrow> set_vce_type v cluster shac = Inl (vce_not_supported v))
   \<and> (truthy_str cluster \<and> \<not> truthy_dict shac \<and> (v = None \<or> v = Some ''cluster'')
        \<longrightarrow> set_vce_type v cluster shac = Inr (Some ''cluster''))
   \<and> (truthy_dict shac \<and> \<not> truthy_str cluster \<and> (v = None \<or> v = Some ''shac'')
        \<longrightarrow> set_vce_type v cluster shac = Inr (Some ''shac''))
   \<and> (\<not> truthy_str cluster \<and> \<not> truthy_dict shac \<and> v \<in> set valid_vce
        \<longrightarrow> set_vce_type v cluster shac = Inr v)"
  by (auto simp: set_vce_type_def Let_def valid_vce_iff)

theorem set_vce_type_validation_witness:
  "set_vce_type None (Some ''state'') None = Inr (Some ''cluster'')
   \<and> set_vce_type None None (Some [(''x'', PyStr ''lon''), (''y'', PyStr ''lat''),
        (''band'', PyNum 2), (''kern'', PyStr ''unif'')]) = Inr (Some ''shac'')
   \<and> set_vce_type (Some ''hc2'') None None = Inr (Some ''hc2'')
   \<and> set_vce_type (Some ''hc4'') None None = Inl (vce_not_supported (Some ''hc4''))
   \<and> isl (set_vce_type (Some ''robust'') (Some ''state'') None)
   \<and> isl (set_vce_type (Some ''cluster'') None (Some [(''band'', PyNum 2)]))
   \<and> isl (set_vce_type None (Some ''state'') (Some [(''band'', PyNum 2)]))"
  using set_vce_type_validation [of "Some ''state''" None None]
    set_vce_type_validation [of None "Some [(''x'', PyStr ''lon''), (''y'', PyStr ''lat''),
        (''band'', PyNum 2), (''kern'', PyStr ''unif'')]" None]
    set_vce_type_validation [of None None "Some ''hc2''"]
    set_vce_type_validation [of None None "Some ''hc4''"]
    set_vce_type_validation [of "Some ''state''" None "Some ''robust''"]
    set_vce_type_validation [of None "Some [(''band'', PyNum 2)]" "Some ''cluster''"]
    set_vce_type_validation [of "Some ''state''" "Some [(''band'', PyNum 2)]" None]
  by (simp add: truthy_str_def truthy_dict_def valid_vce_iff)

section \<open>Properties of the degrees-of-freedom correction\<close>

lemma set_NK_base_vce: "set_NK_base cfg sv res = Inr (N, K, res0) \<Longrightarrow> res_vce res0 = res_vce res"
  by (auto simp: set_NK_base_def Let_def split: option.splits prod.splits)

lemma set_NK_vce: "set_NK cfg sv res = Inr (N, K, res0) \<Longrightarrow> res_vce res0 = res_vce res"
  by (auto simp: set_NK_def bindE_def split: klass.splits sum.splits option.splits dest: set_NK_base_vce)

text \<open>
  Claim C1. With \<open>N\<close> and \<open>K\<close> as \<^verbatim>\<open>_set_NK\<close> returns them and \<open>V\<close> the VCE
  stored by \<^verbatim>\<open>get_vce\<close>: for the kinds none, robust and HC1 the residual degrees of
  freedom are \<open>N - K\<close> and the correction is \<open>N / (N - K)\<close>; for HC2, HC3 and
  spatial-HAC they are \<open>N - K\<close> and 1; for cluster they are \<open>G - 1\<close>, with \<open>G\<close> the
  number of distinct clusters, and \<open>((N - 1) / (N - K)) * (G / (G - 1))\<close>. In every case
  the stored VCE is \<open>V\<close> multiplied by the correction. The divisions are Python integer
  true divisions: the call raises \<^verbatim>\<open>ZeroDivisionError\<close> exactly when a divisor is zero.
\<close>

theorem set_dof_per_vce_kind:
  assumes nk: "set_NK cfg sv res = Inr (N, K, res0)" and v: "res_vce res = Some V"
  shows
  "(self_vce_type cfg \<in> {None, Some ''robust'', Some ''hc1''} \<longrightarrow>
      set_dof cfg sv res =
        (if N = K then Inl ZeroDivisionError
         else Inr (res0\<lparr>res_N := Some N, res_K := Some K, res_df_t := Some (N - K),
                res_df_r := Some (N - K),
                res_vce_correct := Some (real_of_int N / real_of_int (N - K)),
                res_vce := Some (Frame (columns V)
                   (scale (fvalues V) (real_of_int N / real_of_int (N - K))))\<rparr>)))
   \<and> (self_vce_type cfg \<in> {Some ''hc2'', Some ''hc3'', Some ''shac''} \<longrightarrow>
      set_dof cfg sv res =
        Inr (res0\<lparr>res_N := Some N, res_K := Some K, res_df_t := Some (N - K),
                res_df_r := Some (N - K), res_vce_correct := Some 1,
                res_vce := Some (Frame (columns V) (scale (fvalues V) 1))\<rparr>))
   \<and> (\<forall>c G. self_vce_type cfg = Some ''cluster'' \<and> self_cluster_id sv = Some c
           \<and> G = int (card (set (svals c))) \<longrightarrow>
      set_dof cfg sv res =
        (if N = K \<or> G = 1 then Inl ZeroDivisionError
         else Inr (res0\<lparr>res_g := Some G, res_N := Some N, res_K := Some K,
                res_df_t := Some (G - 1), res_df_r := Some (G - 1),
                res_vce_correct := Some ((real_of_int (N - 1) / real_of_int (N - K))
                                         * (real_of_int G / real_of_int (G - 1))),
                res_vce := Some (Frame (columns V)
                   (scale (fvalues V) ((real_of_int (N - 1) / real_of_int (N - K))
                                         * (real_of_int G / real_of_int (G - 1)))))\<rparr>)))"
  using set_NK_vce[OF nk] v 
  by (auto simp: set_dof_def nk bindE_def df_std_def df_hc23_def df_shac_def df_cluster_def
       py_truediv_def add_dof_stats_def Let_def length_remdups_card_conv)

lemma ex_set_NK:
  "set_NK (ex_config\<lparr>self_vce_type := vt\<rparr>) ex_sample ex_results
     = Inr (4, 2, ex_results\<lparr>res_nocons := Some False\<rparr>)"
  by (simp add: set_NK_def set_NK_base_def ex_config_def ex_sample_def shape_def)

theorem set_dof_per_vce_kind_witness:
  "set_dof ex_config ex_sample ex_results =
     Inr (ex_results\<lparr>res_nocons := Some False, res_N := Some 4, res_K := Some 2,
            res_df_t := Some 2, res_df_r := Some 2, res_vce_correct := Some 2,
            res_vce := Some (Frame [''x'', ''_cons''] (Mat 2 2 [[1 / 2, - 3 / 4], [- 3 / 4, 5 / 4]]))\<rparr>)
   \<and> set_dof (ex_config\<lparr>self_vce_type := Some ''hc3''\<rparr>) ex_sample ex_results =
     Inr (ex_results\<lparr>res_nocons := Some False, res_N := Some 4, res_K := Some 2,
            res_df_t := Some 2, res_df_r := Some 2, res_vce_correct := Some 1,
            res_vce := Some (Frame [''x'', ''_cons''] (Mat 2 2 [[1 / 4, - 3 / 8], [- 3 / 8, 5 / 8]]))\<rparr>)
   \<and> set_dof (ex_config\<lparr>self_vce_type := Some ''cluster''\<rparr>) ex_sample ex_results =
     Inr (ex_results\<lparr>res_nocons := Some False, res_g := Some 3, res_N := Some 4, res_K := Some 2,
            res_df_t := Some 2, res_df_r := Some 2, res_vce_correct := Some (9 / 4),
            res_vce := Some (Frame [''x'', ''_cons''] (Mat 2 2 [[9 / 16, - 27 / 32], [- 27 / 32, 45 / 32]]))\<rparr>)"
proof -
  have v: "res_vce ex_results = Some (Frame [''x'', ''_cons''] (Mat 2 2 [[1 / 4, - 3 / 8], [- 3 / 8, 5 / 8]]))"
    by (simp add: ex_results_def)
  have c: "self_cluster_id ex_sample = Some (Series ''c'' [1, 1, 2, 3])"
    by (simp add: ex_sample_def)
  have g: "int (card (set (svals (Series ''c'' [1, 1, 2, 3])))) = 3"
    by simp
  show ?thesis
    using set_dof_per_vce_kind [OF ex_set_NK [of None] v]
      set_dof_per_vce_kind [OF ex_set_NK [of "Some ''hc3''"] v]
      set_dof_per_vce_kind [OF ex_set_NK [of "Some ''cluster''"] v]
    by (simp add: ex_config_def c g scale_def)
qed

section \<open>Properties of the nesting check\<close>

lemma Max_eq_1_iff:
  fixes ns :: "nat list"
  assumes "ns \<noteq> []" and "\<forall>n \<in> set ns. 1 \<le> n"
  shows "Max (set ns) = 1 \<longleftrightarrow> (\<forall>n \<in> set ns. n = 1)"
proof
  assume m: "Max (set ns) = 1"
  show "\<forall>n \<in> set ns. n = 1"
  proof
    fix n assume n: "n \<in> set ns"
    then have "n \<le> Max (set ns)" by simp
    with m assms(2) n show "n = 1" by fastforce
  qed
next
  assume a: "\<forall>n \<in> set ns. n = 1"
  from assms(1) have "Max (set ns) \<in> set ns" by simp
  with a show "Max (set ns) = 1" by blast
qed

lemma length_one_set:
  assumes "distinct xs" and "length xs = 1" and "p \<in> set xs" and "q \<in> set xs"
  shows "p = q"
proof -
  from assms(2) obtain x where "xs = [x]" by (cases xs) auto
  with assms(3,4) show ?thesis by simp
qed

lemma set_singleton_length:
  assumes "distinct xs" and "set xs = {p}"
  shows "length xs = 1"
proof -
  have "card (set xs) = length xs" using assms(1) by (rule distinct_card)
  with assms(2) show ?thesis by simp
qed

lemma filter_length_one_iff:
  assumes d: "distinct ps"
  shows "(\<forall>g \<in> snd ` set ps. length (filter (\<lambda>p. snd p = g) ps) = 1)
         \<longleftrightarrow> (\<forall>p \<in> set ps. \<forall>q \<in> set ps. snd p = snd q \<longrightarrow> fst p = fst q)"
proof
  assume l: "\<forall>g \<in> snd ` set ps. length (filter (\<lambda>p. snd p = g) ps) = 1"
  show "\<forall>p \<in> set ps. \<forall>q \<in> set ps. snd p = snd q \<longrightarrow> fst p = fst q"
  proof (intro ballI impI)
    fix p q assume p: "p \<in> set ps" and q: "q \<in> set ps" and e: "snd p = snd q"
    let ?f = "filter (\<lambda>r. snd r = snd p) ps"
    from p have "snd p \<in> snd ` set ps" by simp
    with l have len: "length ?f = 1" by (rule bspec)
    have df: "distinct ?f" using d by simp
    have pf: "p \<in> set ?f" using p by simp
    have qf: "q \<in> set ?f" using q e by simp
    from length_one_set [OF df len pf qf] show "fst p = fst q" by simp
  qed
next
  assume f: "\<forall>p \<in> set ps. \<forall>q \<in> set ps. snd p = snd q \<longrightarrow> fst p = fst q"
  show "\<forall>g \<in> snd ` set ps. length (filter (\<lambda>p. snd p = g) ps) = 1"
  proof
    fix g assume "g \<in> snd ` set ps"
    then obtain p where p: "p \<in> set ps" and g: "snd p = g" by (auto simp: image_iff)
    let ?f = "filter (\<lambda>r. snd r = g) ps"
    have "set ?f = {p}"
    proof (rule set_eqI)
      fix r
      show "r \<in> set ?f \<longleftrightarrow> r \<in> {p}"
      proof
        assume "r \<in> set ?f"
        then have r: "r \<in> set ps" and rg: "snd r = g" by simp_all
        with f p g have "fst r = fst p" by blast
        with rg g have "r = p" by (simp add: prod_eq_iff)
        then show "r \<in> {p}" by simp
      next
        assume "r \<in> {p}"
        with p g show "r \<in> set ?f" by simp
      qed
    qed
    moreover have "distinct ?f" using d by simp
    ultimately show "length ?f = 1" by (rule set_singleton_length [rotated])
  qed
qed

lemma fe_nested_in_cluster_iff:
  "fe_nested_in_cluster (Some c) (Some a) \<longleftrightarrow>
     sname c = sname a \<or> (zip (svals c) (svals a) \<noteq> [] \<and> every_group_one_cluster c a)"
proof (cases "sname c = sname a")
  case True
  then show ?thesis by (simp add: fe_nested_in_cluster_def)
next
  case False
  define ps where "ps = remdups (zip (svals c) (svals a))"
  define ns where "ns = map (\<lambda>grp. length (filter (\<lambda>p. snd p = grp) ps)) (remdups (map snd ps))"
  have nested: "fe_nested_in_cluster (Some c) (Some a) \<longleftrightarrow> ns \<noteq> [] \<and> Max (set ns) = 1"
    using False by (simp add: fe_nested_in_cluster_def Let_def ns_def ps_def)
  have ne: "ns \<noteq> [] \<longleftrightarrow> zip (svals c) (svals a) \<noteq> []"
    by (simp add: ns_def ps_def)
  have sps: "set ps = set (zip (svals c) (svals a))" by (simp add: ps_def)
  have dps: "distinct ps" by (simp add: ps_def)
  have sns: "set ns = (\<lambda>grp. length (filter (\<lambda>p. snd p = grp) ps)) ` snd ` set ps"
    by (simp add: ns_def)
  have pos: "\<forall>n \<in> set ns. 1 \<le> n"
  proof
    fix n assume "n \<in> set ns"
    with sns obtain p where p: "p \<in> set ps" and n: "n = length (filter (\<lambda>r. snd r = snd p) ps)"
      by (auto simp: image_iff)
    from p have "p \<in> set (filter (\<lambda>r. snd r = snd p) ps)" by simp
    then have "0 < length (filter (\<lambda>r. snd r = snd p) ps)" by (rule length_pos_if_in_set)
    with n show "1 \<le> n" by linarith
  qed
  have "(\<forall>n \<in> set ns. n = 1) \<longleftrightarrow> (\<forall>g \<in> snd ` set ps. length (filter (\<lambda>p. snd p = g) ps) = 1)"
    by (simp add: sns)
  also have "\<dots> \<longleftrightarrow> (\<forall>p \<in> set ps. \<forall>q \<in> set ps. snd p = snd q \<longrightarrow> fst p = fst q)"
    by (rule filter_length_one_iff [OF dps])
  also have "\<dots> \<longleftrightarrow> every_group_one_cluster c a"
    by (simp only: sps every_group_one_cluster_def)
  finally have all1: "(\<forall>n \<in> set ns. n = 1) \<longleftrightarrow> every_group_one_cluster c a" .
  show ?thesis
  proof (cases "zip (svals c) (svals a) = []")
    case True
    with nested ne False show ?thesis by simp
  next
    case nz: False
    with ne have nn: "ns \<noteq> []" by simp
    have "Max (set ns) = 1 \<longleftrightarrow> every_group_one_cluster c a"
      using Max_eq_1_iff [OF nn pos] all1 by simp
    with nested nn nz False show ?thesis by simp
  qed
qed

text \<open>
  Claim C3 (amended). When fixed effects are absorbed and a cluster key is given,
  \<^verbatim>\<open>_set_NK\<close> increases \<open>K\<close> by the number of distinct groups unless the groups are
  nested within the clusters: the cluster key and the group key are the same column, or
  every group lies in exactly one cluster. The claim as written has the roles reversed
  (every cluster holds exactly one group); the counterexample shows both directions.
\<close>

theorem set_NK_fe_adjustment:
  assumes a: "self_A sv = Some a" and c: "self_cluster_id sv = Some c"
    and yr: "self_y_raw sv = Some yr" and len: "length (svals c) = length (svals a)"
  shows "\<exists>res'. set_NK_base cfg sv res =
     Inr (fst (shape (self_x sv)),
          snd (shape (self_x sv))
            + (if sname c = sname a \<or> every_group_one_cluster c a then 0
               else int (card (set (svals a)))),
          res')"
proof (cases "zip (svals c) (svals a) = []")
  case True
  with len have e: "svals a = []" by (cases "svals a"; cases "svals c") auto
  show ?thesis
    by (simp add: set_NK_base_def a c yr e Let_def split: prod.splits)
next
  case False
  then show ?thesis
    using fe_nested_in_cluster_iff [of c a]
    by (simp add: set_NK_base_def a c yr Let_def length_remdups_card_conv split: prod.splits)
qed

theorem set_NK_fe_adjustment_witness:
  "(\<exists>res'. set_NK_base ex_config (nest_sample [1, 1] [1, 2]) ex_results = Inr (2, 1, res'))
   \<and> (\<exists>res'. set_NK_base ex_config (nest_sample [1, 2] [1, 1]) ex_results = Inr (2, 2, res'))"
proof -
  have 1: "every_group_one_cluster (Series ''c'' [1, 1]) (Series ''a'' [1, 2])"
    by (simp add: every_group_one_cluster_def)
  have 2: "\<not> every_group_one_cluster (Series ''c'' [1, 2]) (Series ''a'' [1, 1])"
    by (simp add: every_group_one_cluster_def)
  show ?thesis
    using set_NK_fe_adjustment [of "nest_sample [1, 1] [1, 2]" "Series ''a'' [1, 2]"
        "Series ''c'' [1, 1]" "Series ''y'' [1, 3]" ex_config ex_results]
      set_NK_fe_adjustment [of "nest_sample [1, 2] [1, 1]" "Series ''a'' [1, 1]"
        "Series ''c'' [1, 2]" "Series ''y'' [1, 3]" ex_config ex_results]
    by (simp add: nest_sample_def shape_def 1 2)
qed

theorem set_NK_nesting_counterexample:
  "set_NK_base ex_config (nest_sample [1, 1] [1, 2]) ex_results
     = Inr (2, 1, ex_results\<lparr>res_sst := Some 2, res_nocons := Some True\<rparr>)
   \<and> \<not> every_cluster_one_group (Series ''c'' [1, 1]) (Series ''a'' [1, 2])
   \<and> set_NK_base ex_config (nest_sample [1, 2] [1, 1]) ex_results
     = Inr (2, 2, ex_results\<lparr>res_sst := Some 2, res_nocons := Some True\<rparr>)
   \<and> every_cluster_one_group (Series ''c'' [1, 2]) (Series ''a'' [1, 1])"
  by (simp add: set_NK_base_def nest_sample_def shape_def fe_nested_in_cluster_def
      every_cluster_one_group_def sst_of_def np_mean_def vdot_def Let_def)

end
